theory Spec2Isabelle
  imports Complex_Main "HOL-Library.Char_ord" "HOL-Library.List_Lexorder" "HOL-Library.AList"
    "HOL-Library.Multiset"
begin

section \<open>The frame extractor backend (backend/main.py)\<close>

text \<open>
  The backend is a thin orchestration layer over the file system, an external encoder and
  an archiver. The embedding keeps the structure of the Python module: one definition per
  function of \<^verbatim>\<open>backend/main.py\<close>, exceptions as the left summand of a sum type, file system
  effects as explicit state passing.
\<close>

subsection \<open>Strings and paths\<close>

text \<open>
  Python \<^verbatim>\<open>str\<close> values are modelled as \<^typ>\<open>string\<close>. The order on strings is the
  lexicographic order over the order of characters, which is the order Python's
  \<^verbatim>\<open>sorted\<close> uses on \<^verbatim>\<open>str\<close>.
\<close>

definition startswith :: "string \<Rightarrow> string \<Rightarrow> bool" where
  "startswith s pre = (take (length pre) s = pre)"

definition endswith :: "string \<Rightarrow> string \<Rightarrow> bool" where
  "endswith s suf = (length suf \<le> length s \<and> drop (length s - length suf) s = suf)"

text \<open>\<^verbatim>\<open>os.path.join(a, b)\<close> for two arguments (posixpath).\<close>

definition path_join :: "string \<Rightarrow> string \<Rightarrow> string" where
  "path_join a b =
     (if startswith b ''/'' then b
      else if a = [] \<or> endswith a ''/'' then a @ b
      else a @ ''/'' @ b)"

text \<open>\<^verbatim>\<open>os.path.dirname(p)\<close> (posixpath): the part before the last slash, with trailing
  slashes removed unless it consists of slashes only.\<close>

definition rstrip_slash :: "string \<Rightarrow> string" where
  "rstrip_slash s = rev (dropWhile (\<lambda>c. c = CHR ''/'') (rev s))"

definition dirname :: "string \<Rightarrow> string" where
  "dirname p =
     (let head = rev (dropWhile (\<lambda>c. c \<noteq> CHR ''/'') (rev p))
      in if head \<noteq> [] \<and> \<not> list_all (\<lambda>c. c = CHR ''/'') head then rstrip_slash head else head)"

subsection \<open>The file system\<close>

text \<open>
  The file system is a finite table from path strings to nodes; a file carries its bytes.
  Paths are compared as strings: \<^verbatim>\<open>.\<close>, \<^verbatim>\<open>..\<close>, repeated slashes and symbolic links are
  not resolved, and the table never fails for lack of space or permissions. The entries
  \<^verbatim>\<open>.\<close> and \<^verbatim>\<open>..\<close> that every directory holds are therefore paths like any other: a table
  answers for \<^verbatim>\<open>d/..\<close> only where it lists that path, and what it lists there stands for
  the directory the entry leads to. For a path whose segments are none of \<^verbatim>\<open>.\<close> and
  \<^verbatim>\<open>..\<close> the string names the entry itself.
  The order of the table stands for the arbitrary order in which \<^verbatim>\<open>os.listdir\<close> yields
  the entries of a directory.
\<close>

datatype node = Dir | File string

type_synonym fs = "(string \<times> node) list"

definition isdir :: "fs \<Rightarrow> string \<Rightarrow> bool" where
  "isdir fs p = (map_of fs p = Some Dir)"

definition child_name :: "string \<Rightarrow> string \<Rightarrow> string option" where
  "child_name d p =
     (let pre = d @ ''/''; rest = drop (length pre) p
      in if startswith p pre \<and> rest \<noteq> [] \<and> CHR ''/'' \<notin> set rest then Some rest else None)"

text \<open>\<^verbatim>\<open>os.listdir(d)\<close>: the names of the entries directly inside \<open>d\<close>. The source calls
  it only after \<^verbatim>\<open>os.path.isdir(d)\<close> has succeeded.\<close>

definition listdir :: "fs \<Rightarrow> string \<Rightarrow> string list" where
  "listdir fs d = List.map_filter (child_name d) (map fst fs)"

subsection \<open>Errors and responses\<close>

text \<open>
  \<open>HTTPException code detail\<close> is FastAPI's exception of that name.
  \<open>RequestValidationError\<close> is what FastAPI answers (status 422) when a query parameter
  violates the bounds declared with \<^verbatim>\<open>Query(..., ge=, le=)\<close>; the handler body does not run.
  \<open>CalledProcessError returncode stderr\<close> is what \<^verbatim>\<open>subprocess.run(..., check=True)\<close>
  raises on a non-zero exit status; \<open>stderr\<close> is the captured bytes.
  \<open>UnicodeDecodeError\<close> is what \<^verbatim>\<open>bytes.decode()\<close> raises on bytes that are not UTF-8.
  The remaining constructors are the \<^verbatim>\<open>OSError\<close> subclasses the file operations raise.
\<close>

datatype error =
    HTTPException nat string
  | RequestValidationError
  | CalledProcessError int string
  | UnicodeDecodeError
  | FileExistsError
  | FileNotFoundError
  | IsADirectoryError

record listing =
  images :: "string list"
  page :: int
  total_pages :: int
  total :: int
  page_size :: int

definition OUTPUT_ROOT :: string where
  "OUTPUT_ROOT = ''output''"

subsection \<open>Listing: \<^verbatim>\<open>list_images\<close>\<close>

text \<open>
  \<^verbatim>\<open>math.ceil(total / limit)\<close>. Python's \<^verbatim>\<open>/\<close> on two ints is a double; for a file count
  below \<open>2^53\<close> and a divisor between 1 and 500 the double quotient has the same ceiling as
  the exact quotient, which is what the model computes.
\<close>

definition ceil_div :: "int \<Rightarrow> int \<Rightarrow> int" where
  "ceil_div t l = \<lceil>real_of_int t / real_of_int l\<rceil>"

text \<open>Python's slice \<^verbatim>\<open>xs[start:end]\<close>: negative bounds count from the end, and both
  bounds are clamped to the list.\<close>

definition slice_bound :: "int \<Rightarrow> int \<Rightarrow> int" where
  "slice_bound n i = (if i < 0 then max 0 (n + i) else min n i)"

definition py_slice :: "'a list \<Rightarrow> int \<Rightarrow> int \<Rightarrow> 'a list" where
  "py_slice xs start stop =
     (let n = int (length xs); s = slice_bound n start; e = slice_bound n stop
      in take (nat (e - s)) (drop (nat s) xs))"

definition image_url :: "string \<Rightarrow> string \<Rightarrow> string" where
  "image_url job_id name = ''/output/'' @ job_id @ ''/'' @ name"

definition all_images :: "fs \<Rightarrow> string \<Rightarrow> string list" where
  "all_images fs job_dir = sort (filter (\<lambda>f. endswith f ''.jpg'') (listdir fs job_dir))"

definition list_images :: "fs \<Rightarrow> string \<Rightarrow> int \<Rightarrow> int \<Rightarrow> error + listing" where
  "list_images fs job_id pg limit =
     (if pg < 1 \<or> limit < 1 \<or> 500 < limit then Inl RequestValidationError
      else
        let job_dir = path_join OUTPUT_ROOT job_id in
        if \<not> isdir fs job_dir then Inl (HTTPException 404 ''job not found'')
        else
          let imgs = all_images fs job_dir;
              tot = int (length imgs);
              tp = max 1 (ceil_div tot limit);
              start = (pg - 1) * limit;
              stop = (pg - 1) * limit + limit;
              urls = map (image_url job_id) (py_slice imgs start stop)
          in Inr \<lparr>images = urls, page = pg, total_pages = tp, total = tot, page_size = limit\<rparr>)"

subsection \<open>File operations\<close>

text \<open>\<^verbatim>\<open>os.makedirs(p, exist_ok=True)\<close>: nothing to do for an existing directory; an
  existing file at \<open>p\<close> is an error; otherwise the directory is created (missing parents
  are created with it and not consulted afterwards, so the table records \<open>p\<close> alone).\<close>

definition makedirs :: "fs \<Rightarrow> string \<Rightarrow> error + fs" where
  "makedirs fs p =
     (case map_of fs p of
        Some Dir \<Rightarrow> Inr fs
      | Some (File _) \<Rightarrow> Inl FileExistsError
      | None \<Rightarrow> Inr (AList.update p Dir fs))"

text \<open>\<^verbatim>\<open>open(p, "wb")\<close> followed by one \<^verbatim>\<open>write\<close>: creates or truncates the file. It
  fails on a directory (also a path that is empty or ends in a slash) and when the parent
  directory does not exist; an empty parent is the working directory.\<close>

definition open_wb :: "fs \<Rightarrow> string \<Rightarrow> string \<Rightarrow> error + fs" where
  "open_wb fs p data =
     (if p = [] \<or> endswith p ''/'' \<or> map_of fs p = Some Dir then Inl IsADirectoryError
      else if dirname p \<noteq> [] \<and> \<not> isdir fs (dirname p) then Inl FileNotFoundError
      else Inr (AList.update p (File data) fs))"

text \<open>\<^verbatim>\<open>os.remove(p)\<close>.\<close>

definition remove :: "fs \<Rightarrow> string \<Rightarrow> error + fs" where
  "remove fs p =
     (case map_of fs p of
        Some (File _) \<Rightarrow> Inr (AList.delete p fs)
      | Some Dir \<Rightarrow> Inl IsADirectoryError
      | None \<Rightarrow> Inl FileNotFoundError)"

subsection \<open>External collaborators\<close>

text \<open>
  What the module does not compute itself is a parameter of the model:
  \<^item> \<open>uuid4_hex n\<close>: the \<open>n\<close>-th value \<^verbatim>\<open>uuid.uuid4().hex\<close> yields;
  \<^item> \<open>run_program cmd fs\<close>: the run of the external program started by
    \<^verbatim>\<open>subprocess.run\<close> with argument vector \<open>cmd\<close>, giving its outcome (exit status and
    standard error, or failure to start) and the file system it leaves;
  \<^item> \<open>format_float x\<close>: the text an f-string produces for the float \<open>x\<close>;
  \<^item> \<open>zip_archive entries\<close>: the bytes of the ZIP archive that \<^verbatim>\<open>shutil.make_archive\<close>
    writes for a directory with these entries (relative path and node);
  \<^item> \<open>decode_utf8 bs\<close>: the text \<^verbatim>\<open>bs.decode()\<close> yields, one element per character, or
    \<open>None\<close> when the bytes are not valid UTF-8 and the call raises.
  Every theorem below holds for all values of these parameters.
\<close>

datatype run_result = Exited int string | SpawnFailed

record 'f env =
  uuid4_hex :: "nat \<Rightarrow> string"
  run_program :: "string list \<Rightarrow> fs \<Rightarrow> run_result \<times> fs"
  format_float :: "'f \<Rightarrow> string"
  zip_archive :: "(string \<times> node) list \<Rightarrow> string"
  decode_utf8 :: "string \<Rightarrow> string option"

text \<open>The mutable world of a request: the file system and the number of identities drawn
  so far.\<close>

record world =
  files :: fs
  uuids_drawn :: nat

subsection \<open>Extraction: \<^verbatim>\<open>ffmpeg_extract\<close>\<close>

definition squote :: "string \<Rightarrow> string" where
  "squote s = [CHR 0x27] @ s @ [CHR 0x27]"

definition ffmpeg_vf :: "string \<Rightarrow> string \<Rightarrow> string" where
  "ffmpeg_vf mode thr =
     (if mode = ''all'' then ''fps=30''
      else ''select='' @ squote (''gt(scene,'' @ thr @ '')'') @ '',showinfo'')"

definition ffmpeg_cmd :: "string \<Rightarrow> string \<Rightarrow> string \<Rightarrow> string \<Rightarrow> string list" where
  "ffmpeg_cmd src_path dest_dir mode thr =
     [''ffmpeg'', ''-i'', src_path, ''-vf'', ffmpeg_vf mode thr, ''-vsync'', ''vfr'',
      ''-qscale:v'', ''2'', path_join dest_dir ''frame-%06d.jpg'']"

text \<open>\<^verbatim>\<open>subprocess.run(cmd, capture_output=True, check=True)\<close>: a non-zero exit status
  raises \<^verbatim>\<open>CalledProcessError\<close>; a program that cannot be started raises
  \<^verbatim>\<open>FileNotFoundError\<close>.\<close>

definition subprocess_run_check :: "'f env \<Rightarrow> string list \<Rightarrow> fs \<Rightarrow> (error + unit) \<times> fs" where
  "subprocess_run_check env cmd fs =
     (case run_program env cmd fs of
        (Exited rc err, fs') \<Rightarrow>
          if rc \<noteq> 0 then (Inl (CalledProcessError rc err), fs') else (Inr (), fs')
      | (SpawnFailed, fs') \<Rightarrow> (Inl FileNotFoundError, fs'))"

definition ffmpeg_extract ::
  "'f env \<Rightarrow> fs \<Rightarrow> string \<Rightarrow> string \<Rightarrow> string \<Rightarrow> 'f \<Rightarrow> (error + unit) \<times> fs" where
  "ffmpeg_extract env fs src_path dest_dir mode threshold =
     (case makedirs fs dest_dir of
        Inl e \<Rightarrow> (Inl e, fs)
      | Inr fs1 \<Rightarrow>
          (let cmd = ffmpeg_cmd src_path dest_dir mode (format_float env threshold)
           in subprocess_run_check env cmd fs1))"

text \<open>
  The command shape in the words of the specification,
  \<^verbatim>\<open>tool -i <source> -filter <expression> -sync vfr -quality 2 <dest>/frame-%06d.jpg\<close>,
  with the name of the tool and of its filter, sync and quality options as parameters.
\<close>

definition spec_command ::
  "string \<Rightarrow> string \<Rightarrow> string \<Rightarrow> string \<Rightarrow> string \<Rightarrow> string \<Rightarrow> string \<Rightarrow> string list" where
  "spec_command tool filter_opt sync_opt quality_opt source expression dest =
     [tool, ''-i'', source, filter_opt, expression, sync_opt, ''vfr'', quality_opt, ''2'',
      dest @ ''/frame-%06d.jpg'']"

subsection \<open>Upload: \<^verbatim>\<open>upload_video\<close>\<close>

text \<open>
  \<open>filename\<close> and \<open>data\<close> are \<^verbatim>\<open>file.filename\<close> and the bytes \<^verbatim>\<open>file.read()\<close> yields.
  The \<^verbatim>\<open>try\<close> statement is spelled out: \<open>pending\<close> is the outcome of the \<^verbatim>\<open>try\<close> and
  \<^verbatim>\<open>except\<close> clauses (\<open>try_except\<close> below), and the \<^verbatim>\<open>finally\<close> clause runs \<^verbatim>\<open>os.remove\<close> in every case; an
  exception raised there replaces the pending outcome.
\<close>

definition invalid_mode_detail :: string where
  "invalid_mode_detail = ''mode must be '' @ squote ''scene'' @ '' or '' @ squote ''all''"

text \<open>The outcome of the \<^verbatim>\<open>try\<close> body and its \<^verbatim>\<open>except\<close> clause. For a
  \<^verbatim>\<open>CalledProcessError\<close> the clause evaluates \<^verbatim>\<open>exc.stderr.decode()[:200]\<close>: if the
  bytes decode, it raises \<^verbatim>\<open>HTTPException(500, ...)\<close> with the first 200 characters of the
  text; if they do not, the \<^verbatim>\<open>UnicodeDecodeError\<close> of the decoding is what leaves the
  clause. Any other exception passes through, and without an exception the handler goes on
  to return the job identity.\<close>

definition try_except :: "'f env \<Rightarrow> error + unit \<Rightarrow> string \<Rightarrow> error + string" where
  "try_except env r job_id =
     (case r of
        Inl (CalledProcessError rc err) \<Rightarrow>
          (case decode_utf8 env err of
             None \<Rightarrow> Inl UnicodeDecodeError
           | Some text \<Rightarrow> Inl (HTTPException 500 (''ffmpeg failed: '' @ take 200 text)))
      | Inl e \<Rightarrow> Inl e
      | Inr _ \<Rightarrow> Inr job_id)"

definition upload_video ::
  "'f env \<Rightarrow> world \<Rightarrow> string \<Rightarrow> string \<Rightarrow> string \<Rightarrow> 'f \<Rightarrow> (error + string) \<times> world" where
  "upload_video env w filename data mode threshold =
     (if mode \<notin> {''scene'', ''all''} then (Inl (HTTPException 400 invalid_mode_detail), w)
      else
        let job_id = uuid4_hex env (uuids_drawn w);
            w1 = w\<lparr>uuids_drawn := Suc (uuids_drawn w)\<rparr>;
            job_dir = path_join OUTPUT_ROOT job_id
        in (case makedirs (files w1) job_dir of
              Inl e \<Rightarrow> (Inl e, w1)
            | Inr fs1 \<Rightarrow>
                (let temp_path = path_join job_dir filename
                 in (case open_wb fs1 temp_path data of
                       Inl e \<Rightarrow> (Inl e, w1\<lparr>files := fs1\<rparr>)
                     | Inr fs2 \<Rightarrow>
                         (let (r, fs3) = ffmpeg_extract env fs2 temp_path job_dir mode threshold;
                              pending = try_except env r job_id
                          in (case remove fs3 temp_path of
                                Inl e \<Rightarrow> (Inl e, w1\<lparr>files := fs3\<rparr>)
                              | Inr fs4 \<Rightarrow> (pending, w1\<lparr>files := fs4\<rparr>)))))))"

subsection \<open>Download: \<^verbatim>\<open>make_zip\<close> and \<^verbatim>\<open>download_zip\<close>\<close>

text \<open>The entries below a directory, with their paths relative to it.\<close>

definition tree :: "fs \<Rightarrow> string \<Rightarrow> (string \<times> node) list" where
  "tree fs d =
     List.map_filter
       (\<lambda>(p, n). if startswith p (d @ ''/'') \<and> length (d @ ''/'') < length p
                  then Some (drop (length (d @ ''/'')) p, n) else None) fs"

text \<open>\<^verbatim>\<open>shutil.make_archive(job_dir, "zip", job_dir)\<close>: writes the archive of the
  directory to \<^verbatim>\<open>job_dir + ".zip"\<close>, replacing a file that is there, and returns that path.\<close>

definition make_zip :: "'f env \<Rightarrow> fs \<Rightarrow> string \<Rightarrow> (error + string) \<times> fs" where
  "make_zip env fs job_dir =
     (let zip_path = job_dir @ ''.zip''
      in if map_of fs zip_path = Some Dir then (Inl IsADirectoryError, fs)
         else (Inr zip_path,
               AList.update zip_path (File (zip_archive env (tree fs job_dir))) fs))"

datatype response =
    JSONResponse "(string \<times> string) list" nat
  | FileResponse string string string

definition download_zip :: "'f env \<Rightarrow> fs \<Rightarrow> string \<Rightarrow> (error + response) \<times> fs" where
  "download_zip env fs job_id =
     (let job_dir = path_join OUTPUT_ROOT job_id
      in if \<not> isdir fs job_dir
         then (Inr (JSONResponse [(''error'', ''job not found'')] 404), fs)
         else (case make_zip env fs job_dir of
                 (Inl e, fs') \<Rightarrow> (Inl e, fs')
               | (Inr zip_path, fs') \<Rightarrow>
                   (Inr (FileResponse zip_path (job_id @ ''.zip'') ''application/zip''), fs')))"

text \<open>The bytes a response streams to the client: a \<open>FileResponse\<close> reads the file at its
  path.\<close>

definition response_body :: "fs \<Rightarrow> response \<Rightarrow> string option" where
  "response_body fs r =
     (case r of
        FileResponse path _ _ \<Rightarrow> (case map_of fs path of Some (File b) \<Rightarrow> Some b | _ \<Rightarrow> None)
      | JSONResponse _ _ \<Rightarrow> None)"

subsection \<open>Example file systems\<close>

text \<open>A job \<open>j\<close> with ten frames, listed by the file system out of order, and a stray
  text file; and an empty job \<open>k\<close>.\<close>

definition fs_ten :: fs where
  "fs_ten =
     [(''output'', Dir), (''output/j'', Dir),
      (''output/j/frame-000003.jpg'', File ''c''), (''output/j/frame-000001.jpg'', File ''a''),
      (''output/j/frame-000002.jpg'', File ''b''), (''output/j/frame-000010.jpg'', File ''j''),
      (''output/j/frame-000004.jpg'', File ''d''), (''output/j/frame-000005.jpg'', File ''e''),
      (''output/j/frame-000006.jpg'', File ''f''), (''output/j/frame-000007.jpg'', File ''g''),
      (''output/j/frame-000008.jpg'', File ''h''), (''output/j/frame-000009.jpg'', File ''i''),
      (''output/j/notes.txt'', File ''n''), (''output/k'', Dir)]"

text \<open>
  Stand-ins for the external collaborators. The encoder writes one frame, the first of the
  output pattern given as its last argument, and exits with the given status; the archiver
  concatenates the entries it is given; the decoder accepts the bytes below 128.
\<close>

definition first_frame :: "string \<Rightarrow> string" where
  "first_frame pattern = take (length pattern - length ''%06d.jpg'') pattern @ ''000001.jpg''"

definition one_frame_encoder :: "int \<Rightarrow> string \<Rightarrow> string list \<Rightarrow> fs \<Rightarrow> run_result \<times> fs" where
  "one_frame_encoder rc err cmd fs =
     (Exited rc err, AList.update (first_frame (last cmd)) (File ''JFIF'') fs)"

definition concat_archiver :: "(string \<times> node) list \<Rightarrow> string" where
  "concat_archiver entries =
     concat (map (\<lambda>(p, n). p @ ''='' @ (case n of Dir \<Rightarrow> ''/'' | File b \<Rightarrow> b) @ '';'') entries)"

definition decode_ascii :: "string \<Rightarrow> string option" where
  "decode_ascii bs = (if list_all (\<lambda>c. (of_char c :: nat) < 128) bs then Some bs else None)"

definition env_ex :: "int \<Rightarrow> string \<Rightarrow> string env" where
  "env_ex rc err =
     \<lparr>uuid4_hex = (\<lambda>n. ''a1''), run_program = one_frame_encoder rc err,
      format_float = (\<lambda>x. x), zip_archive = concat_archiver, decode_utf8 = decode_ascii\<rparr>"


definition w0 :: world where
  "w0 = \<lparr>files = [(''output'', Dir)], uuids_drawn = 0\<rparr>"

section \<open>Properties\<close>

subsection \<open>Arithmetic of pages and slices\<close>

lemma ceil_div_neg: "ceil_div t l = - ((- t) div l)"
  unfolding ceil_div_def by (metis ceiling_divide_eq_div)

lemma ceil_div_bounds:
  assumes "0 < l"
  shows "(ceil_div t l - 1) * l < t \<and> t \<le> ceil_div t l * l"
proof -
  define q where "q = (- t) div l"
  define r where "r = (- t) mod l"
  have e: "t = - (q * l) - r"
    unfolding q_def r_def using div_mult_mod_eq[of "- t" l] by linarith
  have r: "0 \<le> r" "r < l" using assms by (simp_all add: r_def)
  have c: "ceil_div t l = - q" by (simp add: ceil_div_neg q_def)
  show ?thesis unfolding c using e r by (simp add: algebra_simps)
qed

lemma ceil_div_zero: "ceil_div 0 l = 0"
  by (simp add: ceil_div_def)

lemma ceil_div_pos: 
  assumes "0 < l" "0 < t" shows "1 \<le> ceil_div t l"
proof -
  have "t \<le> ceil_div t l * l" using ceil_div_bounds[OF assms(1)] by simp
  with assms have "0 < ceil_div t l * l" by linarith
  with assms(1) have "0 < ceil_div t l" by (simp add: zero_less_mult_iff)
  thus ?thesis by simp
qed

lemma py_slice_page:
  "0 \<le> start \<Longrightarrow> 0 \<le> l \<Longrightarrow> py_slice xs start (start + l) = take (nat l) (drop (nat start) xs)"
  unfolding py_slice_def slice_bound_def Let_def
  by (auto simp: min_def max_def)

lemma py_slice_beyond:
  "int (length xs) \<le> start \<Longrightarrow> py_slice xs start stop = []"
  unfolding py_slice_def slice_bound_def Let_def
  by (auto simp: min_def max_def)


subsection \<open>The listing of an existing job\<close>

lemma list_images_ok:
  assumes "isdir fs (path_join OUTPUT_ROOT job_id)" "1 \<le> pg" "1 \<le> limit" "limit \<le> 500"
  shows "list_images fs job_id pg limit =
           Inr \<lparr>images = map (image_url job_id)
                     (take (nat limit) (drop (nat ((pg - 1) * limit))
                        (all_images fs (path_join OUTPUT_ROOT job_id)))),
                page = pg,
                total_pages = max 1 (ceil_div (int (length (all_images fs (path_join OUTPUT_ROOT job_id)))) limit),
                total = int (length (all_images fs (path_join OUTPUT_ROOT job_id))),
                page_size = limit\<rparr>"
proof -
  have "0 \<le> (pg - 1) * limit" using assms by simp
  then show ?thesis using assms
    by (simp add: list_images_def Let_def py_slice_page)
qed

lemma length_all_images:
  "length (all_images fs d) = length (filter (\<lambda>f. endswith f ''.jpg'') (listdir fs d))"
  by (simp add: all_images_def)

lemma total_pages_cases:
  assumes "1 \<le> l" "0 \<le> t"
  shows "max 1 (ceil_div t l) = (if t = 0 then 1 else \<lceil>real_of_int t / real_of_int l\<rceil>)"
proof (cases "t = 0")
  case True
  then show ?thesis by (simp add: ceil_div_zero)
next
  case False
  with assms have "1 \<le> ceil_div t l" by (intro ceil_div_pos) simp_all
  with False show ?thesis by (simp add: ceil_div_def)
qed

lemmas eval_simps = OUTPUT_ROOT_def path_join_def startswith_def endswith_def isdir_def
     all_images_def listdir_def child_name_def List.map_filter_simps

lemma isdir_ten: "isdir fs_ten (path_join OUTPUT_ROOT ''j'')"
  by (simp add: fs_ten_def eval_simps)

lemma listdir_ten: "filter (\<lambda>f. endswith f ''.jpg'') (listdir fs_ten (path_join OUTPUT_ROOT ''j'')) =
   [''frame-000003.jpg'', ''frame-000001.jpg'', ''frame-000002.jpg'', ''frame-000010.jpg'',
    ''frame-000004.jpg'', ''frame-000005.jpg'', ''frame-000006.jpg'', ''frame-000007.jpg'',
    ''frame-000008.jpg'', ''frame-000009.jpg'']"
  by (simp add: fs_ten_def eval_simps)

lemma all_images_ten: "all_images fs_ten (path_join OUTPUT_ROOT ''j'') =
   [''frame-000001.jpg'', ''frame-000002.jpg'', ''frame-000003.jpg'', ''frame-000004.jpg'',
    ''frame-000005.jpg'', ''frame-000006.jpg'', ''frame-000007.jpg'',
    ''frame-000008.jpg'', ''frame-000009.jpg'', ''frame-000010.jpg'']"
  unfolding all_images_def listdir_ten by simp

text \<open>
  Claim C1. For a job whose directory exists, a page number at least 1 and a page size
  between 1 and 500, the listing succeeds; \<open>total\<close> is the number of entries of the job
  directory whose name ends in \<^verbatim>\<open>.jpg\<close>, and \<open>total_pages\<close> is the ceiling of
  \<open>total / page_size\<close>, except that it is 1 when \<open>total\<close> is 0. Equivalently, it is the
  least positive number of pages of that size that hold \<open>total\<close> images.
\<close>

theorem list_images_total_pages:
  assumes "isdir fs (path_join OUTPUT_ROOT job_id)" "1 \<le> pg" "1 \<le> limit" "limit \<le> 500"
  shows "\<exists>r. list_images fs job_id pg limit = Inr r \<and>
           total r = int (length (filter (\<lambda>f. endswith f ''.jpg'')
                                    (listdir fs (path_join OUTPUT_ROOT job_id)))) \<and>
           total_pages r =
             (if total r = 0 then 1 else \<lceil>real_of_int (total r) / real_of_int limit\<rceil>) \<and>
           1 \<le> total_pages r \<and> total r \<le> total_pages r * limit \<and>
           (\<forall>n. 1 \<le> n \<and> total r \<le> n * limit \<longrightarrow> total_pages r \<le> n)"
proof -
  let ?t = "int (length (all_images fs (path_join OUTPUT_ROOT job_id)))"
  let ?tp = "max 1 (ceil_div ?t limit)"
  have l: "0 < limit" using assms by simp
  have b: "(ceil_div ?t limit - 1) * limit < ?t" "?t \<le> ceil_div ?t limit * limit"
    using ceil_div_bounds[OF l, of ?t] by simp_all
  have cover: "?t \<le> ?tp * limit"
  proof -
    have "ceil_div ?t limit * limit \<le> ?tp * limit"
      using l by (intro mult_right_mono) simp_all
    with b(2) show ?thesis by linarith
  qed
  have least: "?tp \<le> n" if n: "1 \<le> n" "?t \<le> n * limit" for n
  proof (rule ccontr)
    assume "\<not> ?tp \<le> n"
    with n(1) have "n \<le> ceil_div ?t limit - 1" by simp
    then have "n * limit \<le> (ceil_div ?t limit - 1) * limit"
      using l by (intro mult_right_mono) simp_all
    with b(1) n(2) show False by linarith
  qed
  show ?thesis
    unfolding list_images_ok[OF assms]
    using total_pages_cases[of limit ?t] assms(3) cover least
    by (simp add: length_all_images)
qed

theorem list_images_total_pages_witness:
  "isdir fs_ten (path_join OUTPUT_ROOT ''j'') \<and> (1::int) \<le> 1 \<and> (1::int) \<le> 3 \<and> (3::int) \<le> 500 \<and>
   (\<exists>r. list_images fs_ten ''j'' 1 3 = Inr r \<and> total r = 10 \<and> total_pages r = 4)"
proof -
  from list_images_total_pages[OF isdir_ten, of 1 3]
  obtain r where r: "list_images fs_ten ''j'' 1 3 = Inr r"
    and t: "total r = int (length (filter (\<lambda>f. endswith f ''.jpg'')
                                     (listdir fs_ten (path_join OUTPUT_ROOT ''j''))))"
    and tp: "total_pages r =
               (if total r = 0 then 1 else \<lceil>real_of_int (total r) / real_of_int 3\<rceil>)"
    by auto
  have t10: "total r = 10" using t by (simp add: listdir_ten)
  have "total_pages r = 4" using tp unfolding t10 by simp
  with r t10 isdir_ten show ?thesis by simp
qed

text \<open>
  Claim C2. For an existing job and a page size in range, a page number strictly greater
  than \<open>total_pages\<close> is not an error: the listing succeeds with an empty image list and
  still reports \<open>total\<close> and \<open>total_pages\<close>. The witness is the scenario of the
  specification: ten images, page 3, page size 50.
\<close>

theorem list_images_beyond_last_page:
  assumes "isdir fs (path_join OUTPUT_ROOT job_id)" "1 \<le> limit" "limit \<le> 500"
    and "max 1 \<lceil>real_of_int (int (length (all_images fs (path_join OUTPUT_ROOT job_id))))
                  / real_of_int limit\<rceil> < pg"
  shows "list_images fs job_id pg limit =
           Inr \<lparr>images = [], page = pg,
                total_pages = max 1 \<lceil>real_of_int (int (length (all_images fs (path_join OUTPUT_ROOT job_id))))
                                      / real_of_int limit\<rceil>,
                total = int (length (all_images fs (path_join OUTPUT_ROOT job_id))),
                page_size = limit\<rparr>"
proof -
  let ?t = "int (length (all_images fs (path_join OUTPUT_ROOT job_id)))"
  have l: "0 < limit" using assms by simp
  have pg: "max 1 (ceil_div ?t limit) < pg" using assms(4) by (simp add: ceil_div_def)
  then have p1: "1 \<le> pg" by simp
  from pg have "ceil_div ?t limit \<le> pg - 1" by simp
  then have "ceil_div ?t limit * limit \<le> (pg - 1) * limit"
    using l by (intro mult_right_mono) simp_all
  with ceil_div_bounds[OF l, of ?t] have "?t \<le> (pg - 1) * limit" by linarith
  then have "drop (nat ((pg - 1) * limit)) (all_images fs (path_join OUTPUT_ROOT job_id)) = []"
    by simp
  then show ?thesis
    unfolding list_images_ok[OF assms(1) p1 assms(2,3)] by (simp add: ceil_div_def)
qed

theorem list_images_beyond_last_page_witness:
  "list_images fs_ten ''j'' 3 50 =
     Inr \<lparr>images = [], page = 3, total_pages = 1, total = 10, page_size = 50\<rparr>"
  using list_images_beyond_last_page[of fs_ten "''j''" 50 3] isdir_ten
  by (simp add: all_images_ten)

text \<open>
  Claim C4. For an existing job the returned page is a contiguous slice of the sequence \<open>S\<close>
  of the job directory's \<^verbatim>\<open>.jpg\<close> names in lexicographic order (\<open>S\<close> is sorted and a
  permutation of those names): it starts at index \<open>(page - 1) * page_size\<close>, has at most
  \<open>page_size\<close> elements, and each name is mapped to \<^verbatim>\<open>/output/{job_id}/{filename}\<close>.
\<close>

theorem list_images_sorted_slice:
  assumes "isdir fs (path_join OUTPUT_ROOT job_id)" "1 \<le> pg" "1 \<le> limit" "limit \<le> 500"
  shows "\<exists>r S. list_images fs job_id pg limit = Inr r \<and>
           sorted S \<and>
           mset S = mset (filter (\<lambda>f. endswith f ''.jpg'') (listdir fs (path_join OUTPUT_ROOT job_id))) \<and>
           images r = map (\<lambda>name. ''/output/'' @ job_id @ ''/'' @ name)
                        (take (nat limit) (drop (nat ((pg - 1) * limit)) S)) \<and>
           length (images r) \<le> nat limit"
proof -
  let ?S = "all_images fs (path_join OUTPUT_ROOT job_id)"
  have s: "sorted ?S" by (simp add: all_images_def)
  have m: "mset ?S = mset (filter (\<lambda>f. endswith f ''.jpg'') (listdir fs (path_join OUTPUT_ROOT job_id)))"
    by (simp add: all_images_def)
  have i: "image_url job_id = (\<lambda>name. ''/output/'' @ job_id @ ''/'' @ name)"
    by (simp add: fun_eq_iff image_url_def)
  have "length (take (nat limit) (drop (nat ((pg - 1) * limit)) ?S)) \<le> nat limit" by simp
  with s m show ?thesis
    unfolding list_images_ok[OF assms] i
    by (intro exI[of _ ?S] exI[of _ "\<lparr>images = map (\<lambda>name. ''/output/'' @ job_id @ ''/'' @ name)
                        (take (nat limit) (drop (nat ((pg - 1) * limit)) ?S)), page = pg,
                total_pages = max 1 (ceil_div (int (length ?S)) limit),
                total = int (length ?S),
                page_size = limit\<rparr>"]) simp
qed


theorem list_images_sorted_slice_witness:
  "isdir fs_ten (path_join OUTPUT_ROOT ''j'') \<and>
   (\<exists>r S. list_images fs_ten ''j'' 2 4 = Inr r \<and> sorted S \<and>
      mset S = mset [''frame-000003.jpg'', ''frame-000001.jpg'', ''frame-000002.jpg'',
                     ''frame-000010.jpg'', ''frame-000004.jpg'', ''frame-000005.jpg'',
                     ''frame-000006.jpg'', ''frame-000007.jpg'', ''frame-000008.jpg'',
                     ''frame-000009.jpg''] \<and>
      images r = map (\<lambda>name. ''/output/j/'' @ name) (take 4 (drop 4 S)) \<and>
      length (images r) \<le> 4)"
  using list_images_sorted_slice[of fs_ten "''j''" 2 4] isdir_ten
  by (simp add: listdir_ten)

subsection \<open>Entries the listing does not see\<close>

lemma endswith_drop:
  assumes "endswith (drop k p) s"
  shows "endswith p s"
proof -
  from assms have l0: "length s \<le> length (drop k p)"
    and d0: "drop (length (drop k p) - length s) (drop k p) = s"
    unfolding endswith_def by blast+
  from l0 have l: "length s \<le> length p - k" by (simp only: length_drop)
  show ?thesis
  proof (cases "k \<le> length p")
    case True
    from d0 have d: "drop (length p - k - length s) (drop k p) = s" by (simp only: length_drop)
    have e: "length p - k - length s + k = length p - length s" using l True by linarith
    have "drop (length p - length s) p = drop (length p - k - length s) (drop k p)"
      by (simp only: drop_drop e)
    with d have "drop (length p - length s) p = s" by (simp only:)
    moreover have "length s \<le> length p" using l by linarith
    ultimately show ?thesis unfolding endswith_def by (rule conjI[rotated])
  next
    case False
    with l have "length s = 0" by linarith
    then have "s = []" by (simp only: length_0_conv)
    then show ?thesis by (simp add: endswith_def)
  qed
qed

lemma child_name_endswith:
  assumes "child_name d p = Some name" "endswith name s"
  shows "endswith p s"
proof -
  from assms(1) have "name = drop (length (d @ ''/'')) p"
    unfolding child_name_def Let_def by (simp split: if_splits)
  with assms(2) show ?thesis by (simp only: endswith_drop)
qed


lemma map_filter_filter_keys:
  assumes "\<And>k name. k \<in> set ks \<Longrightarrow> \<not> Q k \<Longrightarrow> f k = Some name \<Longrightarrow> \<not> P name"
  shows "filter P (List.map_filter f (filter Q ks)) = filter P (List.map_filter f ks)"
  using assms by (induction ks) (auto simp: List.map_filter_simps split: option.splits)

lemma jpg_listdir_delete:
  assumes "\<not> endswith p ''.jpg''"
  shows "filter (\<lambda>f. endswith f ''.jpg'') (listdir (AList.delete p fs) d)
       = filter (\<lambda>f. endswith f ''.jpg'') (listdir fs d)"
proof -
  have k: "map fst (AList.delete p fs) = filter (\<lambda>k. k \<noteq> p) (map fst fs)"
    by (induction fs) auto
  have "filter (\<lambda>f. endswith f ''.jpg'')
          (List.map_filter (child_name d) (filter (\<lambda>k. k \<noteq> p) (map fst fs)))
      = filter (\<lambda>f. endswith f ''.jpg'') (List.map_filter (child_name d) (map fst fs))"
  proof (rule map_filter_filter_keys)
    fix k name assume "\<not> k \<noteq> p" "child_name d k = Some name"
    then have "child_name d p = Some name" by simp
    with assms show "\<not> endswith name ''.jpg''" using child_name_endswith by blast
  qed
  then show ?thesis unfolding listdir_def k .
qed

lemma jpg_listdir_update:
  assumes "\<not> endswith p ''.jpg''"
  shows "filter (\<lambda>f. endswith f ''.jpg'') (listdir (AList.update p n fs) d)
       = filter (\<lambda>f. endswith f ''.jpg'') (listdir fs d)"
proof -
  have "filter (\<lambda>f. endswith f ''.jpg'') (List.map_filter (child_name d) [p]) = []"
  proof (cases "child_name d p")
    case None then show ?thesis by (simp add: List.map_filter_simps)
  next
    case (Some name)
    with assms have "\<not> endswith name ''.jpg''" using child_name_endswith by blast
    with Some show ?thesis by (simp add: List.map_filter_simps)
  qed
  then show ?thesis
    unfolding listdir_def by (simp add: update_keys List.map_filter_def)
qed

lemma isdir_delete: "p \<noteq> d \<Longrightarrow> isdir (AList.delete p fs) d = isdir fs d"
  by (simp add: isdir_def delete_conv')

lemma isdir_update: "p \<noteq> d \<Longrightarrow> isdir (AList.update p n fs) d = isdir fs d"
  by (simp add: isdir_def update_conv')

lemma list_images_depends:
  assumes "isdir fs' (path_join OUTPUT_ROOT job_id) = isdir fs (path_join OUTPUT_ROOT job_id)"
    and "filter (\<lambda>f. endswith f ''.jpg'') (listdir fs' (path_join OUTPUT_ROOT job_id))
       = filter (\<lambda>f. endswith f ''.jpg'') (listdir fs (path_join OUTPUT_ROOT job_id))"
  shows "list_images fs' job_id pg limit = list_images fs job_id pg limit"
proof -
  have "all_images fs' (path_join OUTPUT_ROOT job_id) = all_images fs (path_join OUTPUT_ROOT job_id)"
    by (simp add: all_images_def assms(2))
  with assms(1) show ?thesis by (simp add: list_images_def Let_def)
qed

text \<open>
  Claim C10. For an existing job the listing counts and returns only directory entries
  whose name ends in \<^verbatim>\<open>.jpg\<close>: \<open>total\<close> is their number, every returned URL is the URL
  of such an entry, and an entry at any path that does not end in \<^verbatim>\<open>.jpg\<close> (other than
  the job directory itself) contributes nothing: removing it, adding it or overwriting it
  leaves the whole response, with \<open>total\<close> and \<open>total_pages\<close>, unchanged.
\<close>

theorem list_images_only_jpg:
  assumes "isdir fs (path_join OUTPUT_ROOT job_id)" "1 \<le> pg" "1 \<le> limit" "limit \<le> 500"
  shows "\<exists>r. list_images fs job_id pg limit = Inr r \<and>
           total r = int (length (filter (\<lambda>f. endswith f ''.jpg'')
                                    (listdir fs (path_join OUTPUT_ROOT job_id)))) \<and>
           (\<forall>u \<in> set (images r).
              \<exists>name \<in> set (listdir fs (path_join OUTPUT_ROOT job_id)).
                endswith name ''.jpg'' \<and> u = ''/output/'' @ job_id @ ''/'' @ name) \<and>
           (\<forall>p n. p \<noteq> path_join OUTPUT_ROOT job_id \<and> \<not> endswith p ''.jpg'' \<longrightarrow>
              list_images (AList.delete p fs) job_id pg limit = Inr r \<and>
              list_images (AList.update p n fs) job_id pg limit = Inr r)"
proof -
  let ?d = "path_join OUTPUT_ROOT job_id"
  let ?S = "all_images fs ?d"
  have sub: "set (take (nat limit) (drop (nat ((pg - 1) * limit)) ?S))
               \<subseteq> {name \<in> set (listdir fs ?d). endswith name ''.jpg''}"
  proof -
    have "set (take (nat limit) (drop (nat ((pg - 1) * limit)) ?S)) \<subseteq> set ?S"
      by (meson set_take_subset set_drop_subset subset_trans)
    then show ?thesis by (auto simp: all_images_def)
  qed
  have inv: "list_images (AList.delete p fs) job_id pg limit = list_images fs job_id pg limit"
            "list_images (AList.update p n fs) job_id pg limit = list_images fs job_id pg limit"
    if "p \<noteq> ?d" "\<not> endswith p ''.jpg''" for p n
  proof -
    show "list_images (AList.delete p fs) job_id pg limit = list_images fs job_id pg limit"
      by (rule list_images_depends) (simp_all only: isdir_delete[OF that(1)] jpg_listdir_delete[OF that(2)])
    show "list_images (AList.update p n fs) job_id pg limit = list_images fs job_id pg limit"
      by (rule list_images_depends) (simp_all only: isdir_update[OF that(1)] jpg_listdir_update[OF that(2)])
  qed
  define r where "r = \<lparr>images = map (image_url job_id)
                     (take (nat limit) (drop (nat ((pg - 1) * limit)) ?S)),
                page = pg, total_pages = max 1 (ceil_div (int (length ?S)) limit),
                total = int (length ?S), page_size = limit\<rparr>"
  have ok: "list_images fs job_id pg limit = Inr r"
    unfolding r_def by (rule list_images_ok[OF assms])
  have t: "total r = int (length (filter (\<lambda>f. endswith f ''.jpg'') (listdir fs ?d)))"
    by (simp add: r_def length_all_images)
  have u: "\<forall>u \<in> set (images r). \<exists>name \<in> set (listdir fs ?d).
             endswith name ''.jpg'' \<and> u = ''/output/'' @ job_id @ ''/'' @ name"
  proof
    fix u assume "u \<in> set (images r)"
    then obtain name where n: "name \<in> set (take (nat limit) (drop (nat ((pg - 1) * limit)) ?S))"
      and e: "u = image_url job_id name"
      by (auto simp: r_def)
    from n sub have "name \<in> set (listdir fs ?d)" "endswith name ''.jpg''" by auto
    with e show "\<exists>name \<in> set (listdir fs ?d).
             endswith name ''.jpg'' \<and> u = ''/output/'' @ job_id @ ''/'' @ name"
      unfolding image_url_def by blast
  qed
  have i: "\<forall>p n. p \<noteq> ?d \<and> \<not> endswith p ''.jpg'' \<longrightarrow>
              list_images (AList.delete p fs) job_id pg limit = Inr r \<and>
              list_images (AList.update p n fs) job_id pg limit = Inr r"
    by (simp add: inv ok)
  from ok t u i show ?thesis by blast
qed

theorem list_images_only_jpg_witness:
  "isdir fs_ten (path_join OUTPUT_ROOT ''j'') \<and>
   \<not> endswith ''output/j/notes.txt'' ''.jpg'' \<and>
   map_of fs_ten ''output/j/notes.txt'' = Some (File ''n'') \<and>
   (\<exists>r. list_images fs_ten ''j'' 1 50 = Inr r \<and> total r = 10 \<and>
        list_images (AList.delete ''output/j/notes.txt'' fs_ten) ''j'' 1 50 = Inr r)"
proof -
  have ne: "''output/j/notes.txt'' \<noteq> path_join OUTPUT_ROOT ''j''"
    and nj: "\<not> endswith ''output/j/notes.txt'' ''.jpg''"
    by (simp_all add: eval_simps)
  from list_images_only_jpg[OF isdir_ten, of 1 50]
  obtain r where r: "list_images fs_ten ''j'' 1 50 = Inr r"
    and t: "total r = int (length (filter (\<lambda>f. endswith f ''.jpg'')
                                     (listdir fs_ten (path_join OUTPUT_ROOT ''j''))))"
    and i: "\<forall>p n. p \<noteq> path_join OUTPUT_ROOT ''j'' \<and> \<not> endswith p ''.jpg'' \<longrightarrow>
              list_images (AList.delete p fs_ten) ''j'' 1 50 = Inr r \<and>
              list_images (AList.update p n fs_ten) ''j'' 1 50 = Inr r"
    by auto
  have t10: "total r = 10" using t by (simp add: listdir_ten)
  from i ne nj have "list_images (AList.delete ''output/j/notes.txt'' fs_ten) ''j'' 1 50 = Inr r"
    by blast
  moreover have "map_of fs_ten ''output/j/notes.txt'' = Some (File ''n'')"
    by (simp add: fs_ten_def)
  ultimately show ?thesis using r t10 nj isdir_ten by blast
qed

subsection \<open>Unknown jobs\<close>




subsection \<open>The command line of the encoder\<close>

text \<open>
  Claim C9. Once the destination directory is in place, the extraction invoker runs
  exactly one program, with the argument vector of the specification's command shape,
  \<^verbatim>\<open>tool -i <source> -filter <expression> -sync vfr -quality 2 <dest>/frame-%06d.jpg\<close>,
  where the tool is \<^verbatim>\<open>ffmpeg\<close> and the filter, sync and quality options are spelled
  \<^verbatim>\<open>-vf\<close>, \<^verbatim>\<open>-vsync\<close> and \<^verbatim>\<open>-qscale:v\<close>. The expression is the fixed sampling rate
  \<^verbatim>\<open>fps=30\<close> in mode \<^verbatim>\<open>all\<close> and otherwise the selection of the frames whose scene
  score exceeds the threshold, \<^verbatim>\<open>select='gt(scene,<threshold>)',showinfo\<close>.
\<close>

theorem ffmpeg_extract_command:
  assumes "makedirs fs dest_dir = Inr fs1" "dest_dir \<noteq> []" "\<not> endswith dest_dir ''/''"
  shows "ffmpeg_extract env fs src_path dest_dir mode threshold =
           subprocess_run_check env
             (spec_command ''ffmpeg'' ''-vf'' ''-vsync'' ''-qscale:v'' src_path
                (if mode = ''all'' then ''fps=30''
                 else ''select='' @ [CHR 0x27] @ ''gt(scene,'' @ format_float env threshold
                        @ '')'' @ [CHR 0x27] @ '',showinfo'')
                dest_dir) fs1"
  using assms
  by (simp add: ffmpeg_extract_def ffmpeg_cmd_def ffmpeg_vf_def squote_def spec_command_def
        path_join_def startswith_def)

theorem ffmpeg_extract_command_witness:
  "makedirs (files w0) ''output/a1'' = Inr [(''output'', Dir), (''output/a1'', Dir)] \<and>
   ''output/a1'' \<noteq> [] \<and> \<not> endswith ''output/a1'' ''/'' \<and>
   ffmpeg_extract (env_ex 0 []) (files w0) ''output/a1/clip.mp4'' ''output/a1'' ''scene'' ''0.3''
     = (Inr (), [(''output'', Dir), (''output/a1'', Dir),
                 (''output/a1/frame-000001.jpg'', File ''JFIF'')])"
proof -
  have m: "makedirs (files w0) ''output/a1'' = Inr [(''output'', Dir), (''output/a1'', Dir)]"
    by (simp add: makedirs_def w0_def)
  have n: "''output/a1'' \<noteq> []" and e: "\<not> endswith ''output/a1'' ''/''"
    by (simp_all add: endswith_def)
  show ?thesis
    unfolding ffmpeg_extract_command[OF m n e]
    using m n e
    by (simp add: subprocess_run_check_def spec_command_def env_ex_def one_frame_encoder_def
          first_frame_def)
qed

subsection \<open>Outcomes of an upload\<close>

lemma makedirs_error: "makedirs fs p = Inl e \<Longrightarrow> e = FileExistsError"
  by (auto simp: makedirs_def split: option.splits node.splits)

lemma open_wb_error: "open_wb fs p d = Inl e \<Longrightarrow> e = IsADirectoryError \<or> e = FileNotFoundError"
  by (auto simp: open_wb_def split: if_splits)

lemma remove_error: "remove fs p = Inl e \<Longrightarrow> e = IsADirectoryError \<or> e = FileNotFoundError"
  by (auto simp: remove_def split: option.splits node.splits)

lemma subprocess_error:
  "subprocess_run_check env cmd fs = (Inl e, fs') \<Longrightarrow>
     (\<exists>rc err. e = CalledProcessError rc err \<and> rc \<noteq> 0) \<or> e = FileNotFoundError"
  by (auto simp: subprocess_run_check_def split: prod.splits run_result.splits if_splits)

lemma ffmpeg_extract_error:
  "ffmpeg_extract env fs src dest mode thr = (Inl e, fs') \<Longrightarrow>
     (\<exists>rc err. e = CalledProcessError rc err \<and> rc \<noteq> 0) \<or> e = FileNotFoundError \<or> e = FileExistsError"
  unfolding ffmpeg_extract_def Let_def
  by (auto split: sum.splits dest: makedirs_error subprocess_error)


lemma pending_not_400:
  assumes "ffmpeg_extract env fs src dest mode thr = (r, fs')"
  shows "try_except env' r job_id \<noteq> Inl (HTTPException 400 d)"
proof (cases r)
  case (Inl e)
  with assms ffmpeg_extract_error[of env fs src dest mode thr e fs']
  show ?thesis by (auto simp: try_except_def split: option.splits)
next
  case (Inr u)
  then show ?thesis by (simp add: try_except_def)
qed

lemma upload_video_valid_not_400:
  assumes "mode = ''scene'' \<or> mode = ''all''"
  shows "fst (upload_video env w filename data mode threshold) \<noteq> Inl (HTTPException 400 d)"
proof -
  let ?job_dir = "path_join OUTPUT_ROOT (uuid4_hex env (uuids_drawn w))"
  let ?temp = "path_join ?job_dir filename"
  show ?thesis
  proof (cases "makedirs (files w) ?job_dir")
    case (Inl e)
    with assms makedirs_error[OF Inl] show ?thesis
      by (auto simp: upload_video_def Let_def)
  next
    case mk: (Inr fs1)
    show ?thesis
    proof (cases "open_wb fs1 ?temp data")
      case (Inl e)
      with assms mk open_wb_error[OF Inl] show ?thesis
        by (auto simp: upload_video_def Let_def)
    next
      case ow: (Inr fs2)
      obtain r fs3 where ex: "ffmpeg_extract env fs2 ?temp ?job_dir mode threshold = (r, fs3)"
        by (cases "ffmpeg_extract env fs2 ?temp ?job_dir mode threshold")
      show ?thesis
      proof (cases "remove fs3 ?temp")
        case (Inl e)
        with assms mk ow ex remove_error[OF Inl] show ?thesis
          by (auto simp: upload_video_def Let_def)
      next
        case (Inr fs4)
        with assms mk ow ex pending_not_400[OF ex, of env "uuid4_hex env (uuids_drawn w)" d] show ?thesis
          by (auto simp: upload_video_def Let_def)
      qed
    qed
  qed
qed

text \<open>
  Claim C6. An upload fails with \<^verbatim>\<open>HTTPException(400, ...)\<close> if and only if the mode is
  neither \<^verbatim>\<open>scene\<close> nor \<^verbatim>\<open>all\<close>; and then the world is left as it was: no identity is
  drawn and the file system is unchanged, so no job directory is created.
\<close>

theorem upload_video_invalid_mode:
  "((\<exists>detail. fst (upload_video env w filename data mode threshold) = Inl (HTTPException 400 detail))
      \<longleftrightarrow> mode \<noteq> ''scene'' \<and> mode \<noteq> ''all'') \<and>
   (mode \<noteq> ''scene'' \<and> mode \<noteq> ''all'' \<longrightarrow>
      upload_video env w filename data mode threshold = (Inl (HTTPException 400 invalid_mode_detail), w))"
proof -
  have a: "upload_video env w filename data mode threshold = (Inl (HTTPException 400 invalid_mode_detail), w)"
    if "mode \<noteq> ''scene'' \<and> mode \<noteq> ''all''"
    using that by (simp add: upload_video_def)
  have b: "mode \<noteq> ''scene'' \<and> mode \<noteq> ''all''"
    if "fst (upload_video env w filename data mode threshold) = Inl (HTTPException 400 detail)" for detail
    using that upload_video_valid_not_400[of mode env w filename data threshold detail] by blast
  from a b show ?thesis by (metis fst_conv)
qed

theorem upload_video_invalid_mode_witness:
  "''fast'' \<noteq> ''scene'' \<and> ''fast'' \<noteq> ''all'' \<and>
   upload_video (env_ex 0 []) w0 ''clip.mp4'' ''VIDEO'' ''fast'' ''0.3''
     = (Inl (HTTPException 400 invalid_mode_detail), w0)"
  using upload_video_invalid_mode[of "env_ex 0 []" w0 "''clip.mp4''" "''VIDEO''" "''fast''" "''0.3''"]
  by simp

subsection \<open>The archive of a job\<close>

lemma tree_update_outside:
  assumes "\<not> startswith p (d @ ''/'')"
  shows "tree (AList.update p v fs) d = tree fs d"
  using assms unfolding tree_def
  by (induction fs) auto

lemma zip_not_inside: "\<not> startswith (d @ ''.zip'') (d @ ''/'')"
  by (simp add: startswith_def)

lemma zip_not_dir: "d @ ''.zip'' \<noteq> d"
  by simp

lemma dirname_zip: "dirname (d @ ''.zip'') = dirname d"
  by (simp add: dirname_def)

lemma make_zip_ok:
  assumes "map_of fs (d @ ''.zip'') \<noteq> Some Dir"
  shows "make_zip env fs d =
           (Inr (d @ ''.zip''), AList.update (d @ ''.zip'') (File (zip_archive env (tree fs d))) fs)"
  using assms by (simp add: make_zip_def Let_def)

text \<open>
  Claim C8. For an existing job (whose archive path is not taken by a directory), two
  downloads in a row give the same response and stream the same bytes. The archive is
  \<open>zip_archive\<close> applied to the entries of the job directory at the time of the request;
  it is stored at the job directory's path followed by \<^verbatim>\<open>.zip\<close>, which lies in the same
  parent directory and not below the job directory, so that writing it leaves the
  directory's entries as they were; the file name offered to the client is
  \<^verbatim>\<open>{job_id}.zip\<close>.
\<close>

theorem download_zip_idempotent:
  assumes "isdir fs (path_join OUTPUT_ROOT job_id)"
    and "map_of fs (path_join OUTPUT_ROOT job_id @ ''.zip'') \<noteq> Some Dir"
  shows "\<exists>fs1 fs2 resp.
           download_zip env fs job_id = (Inr resp, fs1) \<and>
           download_zip env fs1 job_id = (Inr resp, fs2) \<and>
           resp = FileResponse (path_join OUTPUT_ROOT job_id @ ''.zip'') (job_id @ ''.zip'')
                    ''application/zip'' \<and>
           response_body fs1 resp = Some (zip_archive env (tree fs (path_join OUTPUT_ROOT job_id))) \<and>
           response_body fs2 resp = response_body fs1 resp \<and>
           tree fs1 (path_join OUTPUT_ROOT job_id) = tree fs (path_join OUTPUT_ROOT job_id) \<and>
           \<not> startswith (path_join OUTPUT_ROOT job_id @ ''.zip'') (path_join OUTPUT_ROOT job_id @ ''/'') \<and>
           dirname (path_join OUTPUT_ROOT job_id @ ''.zip'') = dirname (path_join OUTPUT_ROOT job_id)"
proof -
  let ?d = "path_join OUTPUT_ROOT job_id"
  let ?z = "?d @ ''.zip''"
  let ?b = "zip_archive env (tree fs ?d)"
  let ?fs1 = "AList.update ?z (File ?b) fs"
  let ?resp = "FileResponse ?z (job_id @ ''.zip'') ''application/zip''"
  have t1: "tree ?fs1 ?d = tree fs ?d"
    by (rule tree_update_outside[OF zip_not_inside])
  have d1: "download_zip env fs job_id = (Inr ?resp, ?fs1)"
    using assms by (simp add: download_zip_def Let_def make_zip_ok)
  have i1: "isdir ?fs1 ?d"
    using assms(1) by (simp add: isdir_def update_conv')
  have z1: "map_of ?fs1 ?z = Some (File ?b)"
    by (simp add: update_conv')
  then have n1: "map_of ?fs1 ?z \<noteq> Some Dir" by simp
  have u: "AList.update ?z (File ?b) ?fs1 = ?fs1"
    by (simp add: update_last)
  have d2: "download_zip env ?fs1 job_id = (Inr ?resp, ?fs1)"
    using i1 by (simp add: download_zip_def Let_def make_zip_ok[OF n1] t1 u)
  have b1: "response_body ?fs1 ?resp = Some ?b"
    by (simp add: response_body_def z1)
  show ?thesis
    using d1 d2 b1 t1 zip_not_inside[of ?d] dirname_zip[of ?d] by blast
qed

theorem download_zip_idempotent_witness:
  "isdir fs_ten (path_join OUTPUT_ROOT ''j'') \<and>
   map_of fs_ten (path_join OUTPUT_ROOT ''j'' @ ''.zip'') \<noteq> Some Dir \<and>
   (\<exists>fs1 fs2 resp.
      download_zip (env_ex 0 []) fs_ten ''j'' = (Inr resp, fs1) \<and>
      download_zip (env_ex 0 []) fs1 ''j'' = (Inr resp, fs2) \<and>
      resp = FileResponse ''output/j.zip'' ''j.zip'' ''application/zip'' \<and>
      response_body fs2 resp = response_body fs1 resp)"
proof -
  have p: "path_join OUTPUT_ROOT ''j'' @ ''.zip'' = ''output/j.zip''"
    by (simp add: eval_simps)
  have n: "map_of fs_ten (path_join OUTPUT_ROOT ''j'' @ ''.zip'') \<noteq> Some Dir"
    unfolding p by (simp add: fs_ten_def)
  from download_zip_idempotent[OF isdir_ten n, of "env_ex 0 []"]
  obtain fs1 fs2 resp where
    "download_zip (env_ex 0 []) fs_ten ''j'' = (Inr resp, fs1)"
    "download_zip (env_ex 0 []) fs1 ''j'' = (Inr resp, fs2)"
    "resp = FileResponse (path_join OUTPUT_ROOT ''j'' @ ''.zip'') (''j'' @ ''.zip'') ''application/zip''"
    "response_body fs2 resp = response_body fs1 resp"
    by blast
  then have "download_zip (env_ex 0 []) fs_ten ''j'' = (Inr resp, fs1) \<and>
      download_zip (env_ex 0 []) fs1 ''j'' = (Inr resp, fs2) \<and>
      resp = FileResponse ''output/j.zip'' ''j.zip'' ''application/zip'' \<and>
      response_body fs2 resp = response_body fs1 resp"
    unfolding p by simp
  with isdir_ten n show ?thesis by blast
qed

subsection \<open>Extraction failures and cleanup\<close>

lemma makedirs_isdir: "makedirs fs p = Inr fs' \<Longrightarrow> isdir fs' p"
  by (auto simp: makedirs_def isdir_def update_conv' split: option.splits node.splits)

lemma makedirs_idem: "isdir fs p \<Longrightarrow> makedirs fs p = Inr fs"
  by (simp add: makedirs_def isdir_def)

lemma open_wb_isdir:
  assumes "open_wb fs p d = Inr fs'" "isdir fs q"
  shows "isdir fs' q"
proof -
  from assms(1) have n: "map_of fs p \<noteq> Some Dir" and f: "fs' = AList.update p (File d) fs"
    by (auto simp: open_wb_def split: if_splits)
  from n assms(2) have "p \<noteq> q" by (auto simp: isdir_def)
  with assms(2) show ?thesis by (simp add: f isdir_def update_conv')
qed

lemma upload_video_extraction:
  assumes m: "mode = ''scene'' \<or> mode = ''all''"
    and mk: "makedirs (files w) (path_join OUTPUT_ROOT (uuid4_hex env (uuids_drawn w))) = Inr fs1"
    and ow: "open_wb fs1 (path_join (path_join OUTPUT_ROOT (uuid4_hex env (uuids_drawn w))) filename) data = Inr fs2"
    and ex: "ffmpeg_extract env fs2 (path_join (path_join OUTPUT_ROOT (uuid4_hex env (uuids_drawn w))) filename)
               (path_join OUTPUT_ROOT (uuid4_hex env (uuids_drawn w))) mode threshold = (r, fs3)"
  shows "upload_video env w filename data mode threshold =
           (case remove fs3 (path_join (path_join OUTPUT_ROOT (uuid4_hex env (uuids_drawn w))) filename) of
              Inl e \<Rightarrow> (Inl e, w\<lparr>uuids_drawn := Suc (uuids_drawn w), files := fs3\<rparr>)
            | Inr fs4 \<Rightarrow> (try_except env r (uuid4_hex env (uuids_drawn w)),
                          w\<lparr>uuids_drawn := Suc (uuids_drawn w), files := fs4\<rparr>))"
  using m mk ow ex by (auto simp: upload_video_def Let_def)

lemma remove_cleanup:
  "(case remove fs p of Inl e \<Rightarrow> fs | Inr fs' \<Rightarrow> fs') = fsF \<Longrightarrow>
     (\<forall>b. map_of fsF p \<noteq> Some (File b)) \<and> (\<forall>q. q \<noteq> p \<longrightarrow> map_of fsF q = map_of fs q)"
  by (auto simp: remove_def delete_conv' split: option.splits node.splits)

lemma upload_video_cleanup:
  assumes m: "mode = ''scene'' \<or> mode = ''all''"
    and mk: "makedirs (files w) (path_join OUTPUT_ROOT (uuid4_hex env (uuids_drawn w))) = Inr fs1"
    and ow: "open_wb fs1 (path_join (path_join OUTPUT_ROOT (uuid4_hex env (uuids_drawn w))) filename) data = Inr fs2"
    and ex: "ffmpeg_extract env fs2 (path_join (path_join OUTPUT_ROOT (uuid4_hex env (uuids_drawn w))) filename)
               (path_join OUTPUT_ROOT (uuid4_hex env (uuids_drawn w))) mode threshold = (r, fs3)"
    and fin: "files (snd (upload_video env w filename data mode threshold)) = fsF"
  shows "(\<forall>b. map_of fsF (path_join (path_join OUTPUT_ROOT (uuid4_hex env (uuids_drawn w))) filename)
                 \<noteq> Some (File b)) \<and>
         (\<forall>q. q \<noteq> path_join (path_join OUTPUT_ROOT (uuid4_hex env (uuids_drawn w))) filename
               \<longrightarrow> map_of fsF q = map_of fs3 q)"
proof -
  let ?t = "path_join (path_join OUTPUT_ROOT (uuid4_hex env (uuids_drawn w))) filename"
  have "(case remove fs3 ?t of Inl e \<Rightarrow> fs3 | Inr fs' \<Rightarrow> fs') = fsF"
    using fin unfolding upload_video_extraction[OF m mk ow ex]
    by (simp split: sum.splits)
  then show ?thesis by (rule remove_cleanup)
qed


lemmas upload_eval = upload_video_def Let_def w0_def env_ex_def one_frame_encoder_def first_frame_def
  makedirs_def open_wb_def remove_def dirname_def rstrip_slash_def isdir_def
  ffmpeg_extract_def ffmpeg_cmd_def ffmpeg_vf_def squote_def subprocess_run_check_def
  try_except_def decode_ascii_def OUTPUT_ROOT_def path_join_def startswith_def endswith_def

text \<open>
  Claim C3, as stated, fails. It says that after a failed extraction no partially
  populated job directory is presented by the listing as an existing job. Here the encoder
  writes one frame and exits with status 1: the upload fails with
  \<^verbatim>\<open>HTTPException(500, "ffmpeg failed: boom")\<close>, the job directory stays with that frame, and
  the listing for the job's identity succeeds and presents the frame.
\<close>

theorem failed_extraction_is_listed:
  "upload_video (env_ex 1 ''boom'') w0 ''clip.mp4'' ''VIDEO'' ''scene'' ''0.3''
     = (Inl (HTTPException 500 ''ffmpeg failed: boom''),
        \<lparr>files = [(''output'', Dir), (''output/a1'', Dir),
                  (''output/a1/frame-000001.jpg'', File ''JFIF'')],
         uuids_drawn = 1\<rparr>) \<and>
   list_images [(''output'', Dir), (''output/a1'', Dir),
                (''output/a1/frame-000001.jpg'', File ''JFIF'')] ''a1'' 1 50
     = Inr \<lparr>images = [''/output/a1/frame-000001.jpg''], page = 1, total_pages = 1,
            total = 1, page_size = 50\<rparr>"
proof
  show "upload_video (env_ex 1 ''boom'') w0 ''clip.mp4'' ''VIDEO'' ''scene'' ''0.3''
     = (Inl (HTTPException 500 ''ffmpeg failed: boom''),
        \<lparr>files = [(''output'', Dir), (''output/a1'', Dir),
                  (''output/a1/frame-000001.jpg'', File ''JFIF'')],
         uuids_drawn = 1\<rparr>)"
    by (simp add: upload_eval)
  show "list_images [(''output'', Dir), (''output/a1'', Dir),
                (''output/a1/frame-000001.jpg'', File ''JFIF'')] ''a1'' 1 50
     = Inr \<lparr>images = [''/output/a1/frame-000001.jpg''], page = 1, total_pages = 1,
            total = 1, page_size = 50\<rparr>"
    by (simp add: list_images_def eval_simps ceil_div_neg py_slice_def slice_bound_def image_url_def)
qed

text \<open>
  Claim C3, amended. Extraction is not atomic for the listing. When the encoder exits
  with a non-zero status (leaving the job directory and the temporary source in place),
  the upload reports the failure and does not return the job identity: it raises
  \<^verbatim>\<open>HTTPException(500, ...)\<close> when the encoder's diagnostics decode as text, and the
  decoding error otherwise. The partially populated job directory is not rolled back: the
  file system is the one the encoder left, without the temporary source, and a listing
  request for the job's identity presents the directory as an existing job, with the page
  of the \<^verbatim>\<open>.jpg\<close> entries found there, their number and the number of pages.
\<close>

theorem failed_extraction_stays_listable:
  assumes m: "mode = ''scene'' \<or> mode = ''all''"
    and j: "job_id = uuid4_hex env (uuids_drawn w)"
    and mk: "makedirs (files w) (path_join OUTPUT_ROOT job_id) = Inr fs1"
    and ow: "open_wb fs1 (path_join (path_join OUTPUT_ROOT job_id) filename) data = Inr fs2"
    and run: "run_program env
                (ffmpeg_cmd (path_join (path_join OUTPUT_ROOT job_id) filename)
                   (path_join OUTPUT_ROOT job_id) mode (format_float env threshold)) fs2
              = (Exited rc err, fs3)"
    and rc: "rc \<noteq> 0"
    and keep_dir: "isdir fs3 (path_join OUTPUT_ROOT job_id)"
    and keep_src: "map_of fs3 (path_join (path_join OUTPUT_ROOT job_id) filename) = Some (File b)"
    and q: "1 \<le> pg" "1 \<le> limit" "limit \<le> 500"
  shows "\<exists>w' S.
           upload_video env w filename data mode threshold
             = (Inl (case decode_utf8 env err of
                       None \<Rightarrow> UnicodeDecodeError
                     | Some text \<Rightarrow> HTTPException 500 (''ffmpeg failed: '' @ take 200 text)),
                w') \<and>
           files w' = AList.delete (path_join (path_join OUTPUT_ROOT job_id) filename) fs3 \<and>
           sorted S \<and>
           mset S = mset (filter (\<lambda>f. endswith f ''.jpg'')
                            (listdir (files w') (path_join OUTPUT_ROOT job_id))) \<and>
           list_images (files w') job_id pg limit
             = Inr \<lparr>images = map (\<lambda>name. ''/output/'' @ job_id @ ''/'' @ name)
                                (take (nat limit) (drop (nat ((pg - 1) * limit)) S)),
                    page = pg,
                    total_pages = (if S = [] then 1
                                   else \<lceil>real_of_int (int (length S)) / real_of_int limit\<rceil>),
                    total = int (length S),
                    page_size = limit\<rparr>"
proof -
  let ?d = "path_join OUTPUT_ROOT job_id"
  let ?t = "path_join ?d filename"
  let ?F = "AList.delete ?t fs3"
  let ?S = "all_images ?F ?d"
  have d2: "isdir fs2 ?d" using open_wb_isdir[OF ow makedirs_isdir[OF mk]] .
  have ex: "ffmpeg_extract env fs2 ?t ?d mode threshold = (Inl (CalledProcessError rc err), fs3)"
    using run rc by (simp add: ffmpeg_extract_def makedirs_idem[OF d2] subprocess_run_check_def)
  have rm: "remove fs3 ?t = Inr ?F" using keep_src by (simp add: remove_def)
  have up: "upload_video env w filename data mode threshold
              = (Inl (case decode_utf8 env err of
                        None \<Rightarrow> UnicodeDecodeError
                      | Some text \<Rightarrow> HTTPException 500 (''ffmpeg failed: '' @ take 200 text)),
                 w\<lparr>uuids_drawn := Suc (uuids_drawn w), files := ?F\<rparr>)"
    using upload_video_extraction[OF m mk[unfolded j] ow[unfolded j] ex[unfolded j]] rm
    by (simp add: j try_except_def split: option.splits)
  have ne: "?t \<noteq> ?d" using keep_dir keep_src by (auto simp: isdir_def)
  have dF: "isdir ?F ?d" using keep_dir ne by (simp add: isdir_def delete_conv')
  have s: "sorted ?S" by (simp add: all_images_def)
  have ms: "mset ?S = mset (filter (\<lambda>f. endswith f ''.jpg'') (listdir ?F ?d))"
    by (simp add: all_images_def)
  have i: "image_url job_id = (\<lambda>name. ''/output/'' @ job_id @ ''/'' @ name)"
    by (simp add: fun_eq_iff image_url_def)
  have tp: "max 1 (ceil_div (int (length ?S)) limit)
              = (if ?S = [] then 1 else \<lceil>real_of_int (int (length ?S)) / real_of_int limit\<rceil>)"
    using total_pages_cases[of limit "int (length ?S)"] q(2) by simp
  have li: "list_images ?F job_id pg limit
             = Inr \<lparr>images = map (\<lambda>name. ''/output/'' @ job_id @ ''/'' @ name)
                                (take (nat limit) (drop (nat ((pg - 1) * limit)) ?S)),
                    page = pg,
                    total_pages = (if ?S = [] then 1
                                   else \<lceil>real_of_int (int (length ?S)) / real_of_int limit\<rceil>),
                    total = int (length ?S),
                    page_size = limit\<rparr>"
    unfolding list_images_ok[OF dF q] i tp ..
  show ?thesis
  proof (intro exI conjI)
    show "upload_video env w filename data mode threshold
             = (Inl (case decode_utf8 env err of
                       None \<Rightarrow> UnicodeDecodeError
                     | Some text \<Rightarrow> HTTPException 500 (''ffmpeg failed: '' @ take 200 text)),
                w\<lparr>uuids_drawn := Suc (uuids_drawn w), files := ?F\<rparr>)"
      by (rule up)
    show "files (w\<lparr>uuids_drawn := Suc (uuids_drawn w), files := ?F\<rparr>) = ?F" by simp
    show "sorted ?S" by (rule s)
    show "mset ?S = mset (filter (\<lambda>f. endswith f ''.jpg'')
             (listdir (files (w\<lparr>uuids_drawn := Suc (uuids_drawn w), files := ?F\<rparr>)) ?d))"
      using ms by simp
    show "list_images (files (w\<lparr>uuids_drawn := Suc (uuids_drawn w), files := ?F\<rparr>)) job_id pg limit
             = Inr \<lparr>images = map (\<lambda>name. ''/output/'' @ job_id @ ''/'' @ name)
                                (take (nat limit) (drop (nat ((pg - 1) * limit)) ?S)),
                    page = pg,
                    total_pages = (if ?S = [] then 1
                                   else \<lceil>real_of_int (int (length ?S)) / real_of_int limit\<rceil>),
                    total = int (length ?S),
                    page_size = limit\<rparr>"
      using li by simp
  qed
qed

theorem failed_extraction_stays_listable_witness:
  "makedirs (files w0) (path_join OUTPUT_ROOT ''a1'') = Inr [(''output'', Dir), (''output/a1'', Dir)] \<and>
   open_wb [(''output'', Dir), (''output/a1'', Dir)]
       (path_join (path_join OUTPUT_ROOT ''a1'') ''clip.mp4'') ''VIDEO''
     = Inr [(''output'', Dir), (''output/a1'', Dir), (''output/a1/clip.mp4'', File ''VIDEO'')] \<and>
   (\<exists>w'. upload_video (env_ex 1 ''boom'') w0 ''clip.mp4'' ''VIDEO'' ''scene'' ''0.3''
              = (Inl (HTTPException 500 ''ffmpeg failed: boom''), w') \<and>
         list_images (files w') ''a1'' 1 50
              = Inr \<lparr>images = [''/output/a1/frame-000001.jpg''], page = 1, total_pages = 1,
                     total = 1, page_size = 50\<rparr>)"
proof -
  let ?env = "env_ex 1 ''boom''"
  let ?fs1 = "[(''output'', Dir), (''output/a1'', Dir)]"
  let ?fs2 = "[(''output'', Dir), (''output/a1'', Dir), (''output/a1/clip.mp4'', File ''VIDEO'')]"
  let ?fs3 = "[(''output'', Dir), (''output/a1'', Dir), (''output/a1/clip.mp4'', File ''VIDEO''),
               (''output/a1/frame-000001.jpg'', File ''JFIF'')]"
  have j: "''a1'' = uuid4_hex ?env (uuids_drawn w0)" by (simp add: env_ex_def)
  have d: "path_join OUTPUT_ROOT ''a1'' = ''output/a1''"
    and t: "path_join ''output/a1'' ''clip.mp4'' = ''output/a1/clip.mp4''"
    by (simp_all add: eval_simps)
  have m: "''scene'' = ''scene'' \<or> ''scene'' = ''all''" by simp
  have mk: "makedirs (files w0) (path_join OUTPUT_ROOT ''a1'') = Inr ?fs1"
    unfolding d by (simp add: makedirs_def w0_def)
  have ow: "open_wb ?fs1 (path_join (path_join OUTPUT_ROOT ''a1'') ''clip.mp4'') ''VIDEO'' = Inr ?fs2"
    unfolding d t by (simp add: open_wb_def dirname_def rstrip_slash_def isdir_def endswith_def)
  have run: "run_program ?env
               (ffmpeg_cmd (path_join (path_join OUTPUT_ROOT ''a1'') ''clip.mp4'')
                  (path_join OUTPUT_ROOT ''a1'') ''scene'' (format_float ?env ''0.3'')) ?fs2
             = (Exited 1 ''boom'', ?fs3)"
    unfolding d t
    by (simp add: env_ex_def one_frame_encoder_def first_frame_def ffmpeg_cmd_def path_join_def
          startswith_def endswith_def)
  have rc: "(1::int) \<noteq> 0" by simp
  have kd: "isdir ?fs3 (path_join OUTPUT_ROOT ''a1'')" unfolding d by (simp add: isdir_def)
  have ks: "map_of ?fs3 (path_join (path_join OUTPUT_ROOT ''a1'') ''clip.mp4'') = Some (File ''VIDEO'')"
    unfolding d t by simp
  have dec: "decode_utf8 ?env ''boom'' = Some ''boom''"
    by (simp add: env_ex_def decode_ascii_def)
  from failed_extraction_stays_listable[OF m j mk ow run rc kd ks, of 1 50]
  obtain w' S where
    up: "upload_video ?env w0 ''clip.mp4'' ''VIDEO'' ''scene'' ''0.3''
           = (Inl (case decode_utf8 ?env ''boom'' of
                     None \<Rightarrow> UnicodeDecodeError
                   | Some text \<Rightarrow> HTTPException 500 (''ffmpeg failed: '' @ take 200 text)), w')"
    and f: "files w' = AList.delete (path_join (path_join OUTPUT_ROOT ''a1'') ''clip.mp4'') ?fs3"
    and so: "sorted S"
    and ms: "mset S = mset (filter (\<lambda>f. endswith f ''.jpg'')
                              (listdir (files w') (path_join OUTPUT_ROOT ''a1'')))"
    and l: "list_images (files w') ''a1'' 1 50
              = Inr \<lparr>images = map (\<lambda>name. ''/output/'' @ ''a1'' @ ''/'' @ name)
                                 (take (nat 50) (drop (nat ((1 - 1) * 50)) S)),
                     page = 1,
                     total_pages = (if S = [] then 1
                                    else \<lceil>real_of_int (int (length S)) / real_of_int 50\<rceil>),
                     total = int (length S), page_size = 50\<rparr>"
    by auto
  have "mset S = {#''frame-000001.jpg''#}" using ms unfolding f d t by (simp add: eval_simps)
  then have S: "S = [''frame-000001.jpg'']" by (simp add: mset_single_iff_right)
  have up': "upload_video ?env w0 ''clip.mp4'' ''VIDEO'' ''scene'' ''0.3''
               = (Inl (HTTPException 500 ''ffmpeg failed: boom''), w')"
    using up unfolding dec by simp
  have l': "list_images (files w') ''a1'' 1 50
              = Inr \<lparr>images = [''/output/a1/frame-000001.jpg''], page = 1, total_pages = 1,
                     total = 1, page_size = 50\<rparr>"
  proof -
    have c: "\<lceil>(1::real) / 50\<rceil> = 1" by (simp add: ceiling_eq_iff)
    show ?thesis using l c unfolding S by simp
  qed
  from up' l' mk ow show ?thesis by blast
qed

text \<open>
  Claim C7 says that the temporary source is deleted on every path that reaches the
  extraction, and that the extracted frames are left untouched. The first part holds
  (\<open>upload_video_cleanup\<close> above: after the upload there is no file at the temporary
  path, and every other path is as the encoder left it). The second part fails when the
  uploaded file is named like a frame. The source is stored in the job directory under
  the client's file name, the directory the frames are written to; for the file name
  \<^verbatim>\<open>frame-000001.jpg\<close> the encoder's first frame replaces the source at that path, and
  the cleanup then removes the frame: the upload succeeds and the job has no frame.
\<close>

theorem upload_deletes_colliding_frame:
  "ffmpeg_extract (env_ex 0 [])
       [(''output'', Dir), (''output/a1'', Dir), (''output/a1/frame-000001.jpg'', File ''VIDEO'')]
       ''output/a1/frame-000001.jpg'' ''output/a1'' ''all'' ''0.3''
     = (Inr (), [(''output'', Dir), (''output/a1'', Dir),
                 (''output/a1/frame-000001.jpg'', File ''JFIF'')]) \<and>
   upload_video (env_ex 0 []) w0 ''frame-000001.jpg'' ''VIDEO'' ''all'' ''0.3''
     = (Inr ''a1'', \<lparr>files = [(''output'', Dir), (''output/a1'', Dir)], uuids_drawn = 1\<rparr>)"
  by (simp add: upload_eval)

end
